theory Spec2Isabelle
  imports Main
begin

section \<open>JavaScript values\<close>

text \<open>
  \<^verbatim>\<open>ModuleRegistry.js\<close> is dynamically typed: a path, an alias and an options
  object are all plain JavaScript values, and the code tests them with \<^verbatim>\<open>!\<close>,
  \<^verbatim>\<open>if\<close> and \<^verbatim>\<open>||\<close>. The values are modelled by one datatype.
  \<open>Num n\<close> is an integer-valued number (fractions, \<^verbatim>\<open>NaN\<close> and the infinities are
  not represented, and \<open>n\<close> is taken below \<open>2^53\<close> in absolute value);
  \<open>Obj r\<close> is a reference to a plain object, identified by \<open>r\<close>;
  \<open>ObjectPrototype\<close> is the object \<^verbatim>\<open>Object.prototype\<close>, and \<open>Fun f\<close> is the
  built-in function named \<open>f\<close>: these two are what a read of an inherited property
  returns.
\<close>

datatype jsval =
  Undefined | Null | Bool bool | Num int | Str string | Obj nat | Fun string | ObjectPrototype

text \<open>ECMAScript \<^verbatim>\<open>ToBoolean\<close>: what \<^verbatim>\<open>if (v)\<close>, \<^verbatim>\<open>!v\<close> and \<^verbatim>\<open>v || w\<close> test.\<close>

fun truthy :: "jsval \<Rightarrow> bool" where
  "truthy Undefined = False"
| "truthy Null = False"
| "truthy (Bool b) = b"
| "truthy (Num n) = (n \<noteq> 0)"
| "truthy (Str s) = (s \<noteq> [])"
| "truthy (Obj r) = True"
| "truthy (Fun f) = True"
| "truthy ObjectPrototype = True"

text \<open>\<^verbatim>\<open>a || b\<close> on values that are already computed.\<close>

definition js_or :: "jsval \<Rightarrow> jsval \<Rightarrow> jsval" where
  "js_or a b = (if truthy a then a else b)"

text \<open>The values that are objects: what the setter of \<^verbatim>\<open>__proto__\<close> accepts as a
  prototype, beside \<^verbatim>\<open>null\<close>.\<close>

fun is_object :: "jsval \<Rightarrow> bool" where
  "is_object (Obj r) = True"
| "is_object (Fun f) = True"
| "is_object ObjectPrototype = True"
| "is_object v = False"

text \<open>
  A property name is a string: \<^verbatim>\<open>obj[v]\<close> converts \<open>v\<close> with \<^verbatim>\<open>ToPropertyKey\<close>,
  so that \<^verbatim>\<open>obj[1]\<close> and \<^verbatim>\<open>obj["1"]\<close> are the same entry. A plain object converts
  to \<^verbatim>\<open>[object Object]\<close>, a built-in function to its source text.
\<close>

definition digit_char :: "nat \<Rightarrow> char" where
  "digit_char d = char_of (48 + d)"

function decimal :: "nat \<Rightarrow> string" where
  "decimal n = (if n < 10 then [digit_char n] else decimal (n div 10) @ [digit_char (n mod 10)])"
  by pat_completeness auto
termination
  by (relation "measure (\<lambda>n. n)") auto

declare decimal.simps [simp del]

fun ToPropertyKey :: "jsval \<Rightarrow> string" where
  "ToPropertyKey Undefined = ''undefined''"
| "ToPropertyKey Null = ''null''"
| "ToPropertyKey (Bool b) = (if b then ''true'' else ''false'')"
| "ToPropertyKey (Num n) = (if n < 0 then CHR ''-'' # decimal (nat (- n)) else decimal (nat n))"
| "ToPropertyKey (Str s) = s"
| "ToPropertyKey (Obj r) = ''[object Object]''"
| "ToPropertyKey (Fun f) = ''function '' @ f @ ''() { [native code] }''"
| "ToPropertyKey ObjectPrototype = ''[object Object]''"

section \<open>Objects used as dictionaries\<close>

text \<open>
  The registry keeps its entries in two object literals, \<^verbatim>\<open>_options:{}\<close> and
  \<^verbatim>\<open>_redirects:{}\<close>. Such an object is not a bare map: it inherits from
  \<^verbatim>\<open>Object.prototype\<close>. A read \<^verbatim>\<open>d[k]\<close> of a name that is no own property
  returns what the prototype has under that name, and the assignment
  \<^verbatim>\<open>d['__proto__'] = v\<close> runs the setter inherited from \<^verbatim>\<open>Object.prototype\<close>:
  it creates no own property, and replaces the prototype when \<open>v\<close> is an object or
  \<^verbatim>\<open>null\<close>.

  The data properties of \<^verbatim>\<open>Object.prototype\<close> are built-in functions:
\<close>

definition object_prototype :: "string \<rightharpoonup> jsval" where
  "object_prototype = map_of
     [(''constructor'', Fun ''Object''),
      (''toString'', Fun ''toString''),
      (''toLocaleString'', Fun ''toLocaleString''),
      (''valueOf'', Fun ''valueOf''),
      (''hasOwnProperty'', Fun ''hasOwnProperty''),
      (''isPrototypeOf'', Fun ''isPrototypeOf''),
      (''propertyIsEnumerable'', Fun ''propertyIsEnumerable''),
      (''__defineGetter__'', Fun ''__defineGetter__''),
      (''__defineSetter__'', Fun ''__defineSetter__''),
      (''__lookupGetter__'', Fun ''__lookupGetter__''),
      (''__lookupSetter__'', Fun ''__lookupSetter__'')]"

text \<open>The names a fresh \<^verbatim>\<open>{}\<close> answers to without having them: the data properties
  above and the accessor \<^verbatim>\<open>__proto__\<close>.\<close>

definition inherited :: "string \<Rightarrow> bool" where
  "inherited key = (key = ''__proto__'' \<or> object_prototype key \<noteq> None)"

text \<open>
  A dictionary is the map of its own properties, read with \<open>d key\<close>, together with its
  prototype slot. The slot is kept in the same map, under the name \<^verbatim>\<open>__proto__\<close>,
  which is never an own property while the setter is inherited:
  \<^item> no entry: the prototype is \<^verbatim>\<open>Object.prototype\<close>, as for \<^verbatim>\<open>{}\<close>;
  \<^item> an object: the prototype has been replaced by that object;
  \<^item> any other value: the prototype has been set to \<^verbatim>\<open>null\<close>. Such a dictionary
    inherits nothing, not even the accessor, so that \<^verbatim>\<open>__proto__\<close> is an ordinary
    own property of it: the entry is the value of that property, \<^verbatim>\<open>undefined\<close>
    until it is assigned.

  Two things are outside the model. The own properties of an object other than
  \<^verbatim>\<open>Object.prototype\<close> are not represented: a read through a replacing object
  finds what an object without own properties has. The statements on C1 to C5 and C9
  that depend on what the prototype contributes to a read or to an assignment are made
  for a dictionary whose prototype has not been replaced (\<open>plain\<close>), so that they do
  not rest on this. And a dictionary with a \<^verbatim>\<open>null\<close> prototype whose own
  \<^verbatim>\<open>__proto__\<close> property is assigned an object is read as a dictionary with that
  object for prototype.
\<close>

type_synonym dict = "string \<rightharpoonup> jsval"

definition plain :: "dict \<Rightarrow> bool" where
  "plain d = (d ''__proto__'' = None)"

text \<open>What a name that is no own property reads as, by the prototype slot.\<close>

definition inherited_value :: "dict \<Rightarrow> string \<Rightarrow> jsval" where
  "inherited_value d key =
     (case d ''__proto__'' of
        None \<Rightarrow> (case object_prototype key of None \<Rightarrow> Undefined | Some f \<Rightarrow> f)
      | Some p \<Rightarrow>
          if is_object p
          then (case object_prototype key of None \<Rightarrow> Undefined | Some f \<Rightarrow> f)
          else Undefined)"

text \<open>\<^verbatim>\<open>d[k]\<close>. The getter of \<^verbatim>\<open>__proto__\<close> returns the prototype.\<close>

definition js_get :: "dict \<Rightarrow> jsval \<Rightarrow> jsval" where
  "js_get d k =
     (if ToPropertyKey k = ''__proto__''
      then (case d ''__proto__'' of None \<Rightarrow> ObjectPrototype | Some v \<Rightarrow> v)
      else (case d (ToPropertyKey k) of
              None \<Rightarrow> inherited_value d (ToPropertyKey k)
            | Some v \<Rightarrow> v))"

text \<open>The setter of \<^verbatim>\<open>__proto__\<close>: an object becomes the prototype, \<^verbatim>\<open>null\<close>
  removes it, and any other value is ignored.\<close>

definition set_prototype :: "dict \<Rightarrow> jsval \<Rightarrow> dict" where
  "set_prototype d v =
     (if v = ObjectPrototype then d(''__proto__'' := None)
      else if is_object v then d(''__proto__'' \<mapsto> v)
      else if v = Null then d(''__proto__'' \<mapsto> Undefined)
      else d)"

text \<open>\<^verbatim>\<open>d[k] = v\<close>. Every name of \<^verbatim>\<open>Object.prototype\<close> but \<^verbatim>\<open>__proto__\<close> is
  a writable data property, so that the assignment creates an own property of the
  dictionary. The name \<^verbatim>\<open>__proto__\<close> goes to the setter as long as the dictionary
  has a prototype to inherit it from, and is an ordinary property once the prototype is
  \<^verbatim>\<open>null\<close>.\<close>

definition js_set :: "dict \<Rightarrow> jsval \<Rightarrow> jsval \<Rightarrow> dict" where
  "js_set d k v =
     (if ToPropertyKey k \<noteq> ''__proto__'' then d(ToPropertyKey k \<mapsto> v)
      else (case d ''__proto__'' of
              None \<Rightarrow> set_prototype d v
            | Some p \<Rightarrow> if is_object p then set_prototype d v else d(''__proto__'' \<mapsto> v)))"

section \<open>The module registry\<close>

text \<open>
  \<^verbatim>\<open>var ModuleRegistry = { _options:{}, _redirects:{}, ... }\<close>. The state a call
  can touch is the two dictionaries of the registry and the module loader, of which the
  model keeps the calls made to \<^verbatim>\<open>_options.loader.config\<close>, oldest first
  (\<open>m_options\<close> is \<^verbatim>\<open>this._options\<close>, \<open>m_redirects\<close> is \<^verbatim>\<open>this._redirects\<close>).
  The loader's \<^verbatim>\<open>toUrl\<close> is a parameter of the model: a total function
  without effect on the registry.
\<close>

record registry =
  m_options :: dict
  m_redirects :: dict
  loader_config :: "(jsval \<times> jsval) list"

definition init :: registry where
  "init = \<lparr> m_options = Map.empty, m_redirects = Map.empty, loader_config = [] \<rparr>"

text \<open>A call ends with a value or with a thrown \<^verbatim>\<open>Error\<close>, and leaves a state.\<close>

datatype error = Error string

type_synonym outcome = "(error + jsval) \<times> registry"

text \<open>
  \<^verbatim>\<open>
  registerModule:function(path,options,alias) {
      this._options[_options.loader.toUrl(path)] = options;
      if (alias) {
          this._redirects[alias] = path;
      }
      _options.loader.config(path,options);
  }
  \<close>
\<close>

definition registerModule :: "(jsval \<Rightarrow> jsval) \<Rightarrow> jsval \<Rightarrow> jsval \<Rightarrow> jsval \<Rightarrow> registry \<Rightarrow> outcome" where
  "registerModule toUrl path opts alias reg =
     (let reg1 = reg\<lparr> m_options := js_set (m_options reg) (toUrl path) opts \<rparr>;
          reg2 = (if truthy alias
                  then reg1\<lparr> m_redirects := js_set (m_redirects reg1) alias path \<rparr>
                  else reg1);
          reg3 = reg2\<lparr> loader_config := loader_config reg2 @ [(path, opts)] \<rparr>
      in (Inr Undefined, reg3))"

text \<open>
  \<^verbatim>\<open>
  getRedirect:function(path) {
      return this._redirects[path] || path;
  }
  \<close>
\<close>

definition getRedirect :: "jsval \<Rightarrow> registry \<Rightarrow> outcome" where
  "getRedirect path reg = (Inr (js_or (js_get (m_redirects reg) path) path), reg)"

text \<open>
  \<^verbatim>\<open>
  getModule:function(path) {
      if (!path) {
          throw new Error('ModuleRegistry.getModule(path): "path" is a required parameter.');
      }
      return this._options[path] || this._options[_options.loader.toUrl(path)];
  }
  \<close>
\<close>

definition required_parameter :: error where
  "required_parameter = Error ''ModuleRegistry.getModule(path): \"path\" is a required parameter.''"

definition getModule :: "(jsval \<Rightarrow> jsval) \<Rightarrow> jsval \<Rightarrow> registry \<Rightarrow> outcome" where
  "getModule toUrl path reg =
     (if \<not> truthy path
      then (Inl required_parameter, reg)
      else (Inr (js_or (js_get (m_options reg) path) (js_get (m_options reg) (toUrl path))), reg))"

subsection \<open>Callers\<close>

text \<open>
  The registry is used through its three methods only. A client is a sequence of calls;
  a thrown error ends the call that threw it, and the next call finds the state that
  call left.
\<close>

datatype call = RegisterModule jsval jsval jsval | GetRedirect jsval | GetModule jsval

fun invoke :: "(jsval \<Rightarrow> jsval) \<Rightarrow> call \<Rightarrow> registry \<Rightarrow> outcome" where
  "invoke toUrl (RegisterModule path opts alias) reg = registerModule toUrl path opts alias reg"
| "invoke toUrl (GetRedirect path) reg = getRedirect path reg"
| "invoke toUrl (GetModule path) reg = getModule toUrl path reg"

fun run :: "(jsval \<Rightarrow> jsval) \<Rightarrow> call list \<Rightarrow> registry \<Rightarrow> registry" where
  "run toUrl [] reg = reg"
| "run toUrl (c # cs) reg = run toUrl cs (snd (invoke toUrl c reg))"

text \<open>\<^verbatim>\<open>ModuleRegistry.getModule(ModuleRegistry.getRedirect(name))\<close>, as a caller writes it.\<close>

definition getModule_of_redirect :: "(jsval \<Rightarrow> jsval) \<Rightarrow> jsval \<Rightarrow> registry \<Rightarrow> outcome" where
  "getModule_of_redirect toUrl name reg =
     (case getRedirect name reg of
        (Inl e, reg1) \<Rightarrow> (Inl e, reg1)
      | (Inr path, reg1) \<Rightarrow> getModule toUrl path reg1)"

text \<open>
  Two loaders to run the registry with. The first resolves every path to itself. The
  second resolves a module name against a base URL by string concatenation
  (\<^verbatim>\<open>baseUrl + name\<close>), the way an AMD loader treats a relative module name.
\<close>

definition plain_loader :: "jsval \<Rightarrow> jsval" where
  "plain_loader path = path"

definition base_loader :: "string \<Rightarrow> jsval \<Rightarrow> jsval" where
  "base_loader baseUrl path = Str (baseUrl @ ToPropertyKey path)"

section \<open>The bound module\<close>

text \<open>
  The lifecycle of a bound module is not part of \<^verbatim>\<open>ModuleRegistry.js\<close>. The
  definitions of this section follow the specification's description of it (data model,
  Context Monitor Set, Bound Module state machine, design notes), one definition for
  each thing it names.
\<close>














section \<open>Properties of the registry\<close>

subsection \<open>Auxiliary facts\<close>

lemma decimal_nonempty: "decimal n \<noteq> []"
  by (subst decimal.simps) simp

lemma truthy_key_nonempty: "truthy v \<Longrightarrow> ToPropertyKey v \<noteq> []"
  by (cases v) (simp_all add: decimal_nonempty)

lemma js_get_stored: "d (ToPropertyKey k) = Some v \<Longrightarrow> js_get d k = v"
  by (auto simp add: js_get_def)

lemma js_get_absent:
  "plain d \<Longrightarrow> \<not> inherited (ToPropertyKey k) \<Longrightarrow> d (ToPropertyKey k) = None
    \<Longrightarrow> js_get d k = Undefined"
  by (simp add: js_get_def plain_def inherited_def inherited_value_def)

lemma js_get_empty_name: "d [] = None \<Longrightarrow> js_get d (Str []) = Undefined"
  by (simp add: js_get_def inherited_value_def object_prototype_def split: option.splits)

lemma js_set_plain_key:
  "ToPropertyKey k \<noteq> ''__proto__'' \<Longrightarrow> js_set d k v = d(ToPropertyKey k \<mapsto> v)"
  by (simp add: js_set_def)

lemma js_set_elsewhere:
  "key \<noteq> ToPropertyKey k \<Longrightarrow> key \<noteq> ''__proto__'' \<Longrightarrow> js_set d k v key = d key"
  by (simp add: js_set_def set_prototype_def split: option.splits)

lemma js_get_set:
  "ToPropertyKey k \<noteq> ''__proto__'' \<Longrightarrow>
     js_get (js_set d k v) k' = (if ToPropertyKey k' = ToPropertyKey k then v else js_get d k')"
  by (auto simp add: js_get_def js_set_def inherited_value_def split: option.splits)

lemma registerModule_options:
  "m_options (snd (registerModule toUrl path opts alias reg)) = js_set (m_options reg) (toUrl path) opts"
  by (simp add: registerModule_def Let_def)

lemma registerModule_redirects:
  "m_redirects (snd (registerModule toUrl path opts alias reg)) =
     (if truthy alias then js_set (m_redirects reg) alias path else m_redirects reg)"
  by (simp add: registerModule_def Let_def)

lemma getRedirect_snd: "snd (getRedirect path reg) = reg"
  by (simp add: getRedirect_def)

lemma getModule_snd: "snd (getModule toUrl path reg) = reg"
  by (simp add: getModule_def)

lemmas eval_defs = registerModule_def getRedirect_def getModule_def getModule_of_redirect_def
  js_get_def js_set_def set_prototype_def inherited_value_def object_prototype_def inherited_def
  plain_def js_or_def init_def plain_loader_def base_loader_def Let_def

lemma run_keeps_empty_alias:
  "m_redirects reg [] = None \<Longrightarrow> m_redirects (run toUrl cs reg) [] = None"
proof (induction cs arbitrary: reg)
  case Nil
  then show ?case by simp
next
  case (Cons c cs)
  have "m_redirects (snd (invoke toUrl c reg)) [] = None"
  proof (cases c)
    case (RegisterModule path opts al)
    show ?thesis
    proof (cases "truthy al")
      case True
      then have "[] \<noteq> ToPropertyKey al"
        using truthy_key_nonempty [of al] by simp
      then have "js_set (m_redirects reg) al path [] = m_redirects reg []"
        by (rule js_set_elsewhere) simp
      with Cons.prems RegisterModule True show ?thesis
        by (simp add: registerModule_redirects)
    next
      case False
      with Cons.prems RegisterModule show ?thesis
        by (simp add: registerModule_redirects)
    qed
  next
    case (GetRedirect path)
    with Cons.prems show ?thesis by (simp add: getRedirect_snd)
  next
    case (GetModule path)
    with Cons.prems show ?thesis by (simp add: getModule_snd)
  qed
  then show ?case using Cons.IH by simp
qed

subsection \<open>Round trip through an alias (C1)\<close>

text \<open>
  C1 as stated, for every alias, path and options, fails on the code in five ways.
  An empty alias records no redirect (\<^verbatim>\<open>if (alias)\<close>), so \<^verbatim>\<open>getRedirect('')\<close>
  is \<^verbatim>\<open>''\<close> and \<^verbatim>\<open>getModule\<close> throws. An empty target path is a falsy
  redirect, so \<^verbatim>\<open>getRedirect\<close> returns the alias itself, which has no options.
  \<^verbatim>\<open>registerModule\<close> stores under \<^verbatim>\<open>toUrl(path)\<close> while
  \<^verbatim>\<open>getModule\<close> tries the path as given first: with a loader that resolves
  \<^verbatim>\<open>Clock\<close> to \<^verbatim>\<open>js/Clock\<close> and \<^verbatim>\<open>js/Clock\<close> to \<^verbatim>\<open>js/js/Clock\<close>, the
  options registered earlier for \<^verbatim>\<open>Clock\<close> (object 0) are what a lookup of
  \<^verbatim>\<open>js/Clock\<close> finds, not the options (object 2) registered for \<^verbatim>\<open>js/Clock\<close>.
  The alias \<^verbatim>\<open>__proto__\<close> is not recorded (the assignment runs the inherited
  setter, which ignores a string), so \<^verbatim>\<open>getRedirect\<close> returns
  \<^verbatim>\<open>Object.prototype\<close>, under which there are no options. And for the path
  \<^verbatim>\<open>constructor\<close> the lookup of the path as given finds the inherited function
  before it tries \<^verbatim>\<open>js/constructor\<close>, where the options are.
\<close>

theorem roundtrip_counterexample:
  "fst (getModule_of_redirect plain_loader (Str '''')
      (snd (registerModule plain_loader (Str ''ui/Clock'') (Obj 2) Undefined
        (snd (registerModule plain_loader (Str ''ui/Clock'') (Obj 1) (Str '''') init)))))
     = Inl required_parameter
   \<and> fst (getModule_of_redirect plain_loader (Str ''clock'')
      (snd (registerModule plain_loader (Str '''') (Obj 2) Undefined
        (snd (registerModule plain_loader (Str '''') (Obj 1) (Str ''clock'') init)))))
     = Inr Undefined
   \<and> fst (getModule_of_redirect (base_loader ''js/'') (Str ''clock'')
      (snd (registerModule (base_loader ''js/'') (Str ''js/Clock'') (Obj 2) Undefined
        (snd (registerModule (base_loader ''js/'') (Str ''js/Clock'') (Obj 1) (Str ''clock'')
          (snd (registerModule (base_loader ''js/'') (Str ''Clock'') (Obj 0) Undefined init)))))))
     = Inr (Obj 0)
   \<and> fst (getModule_of_redirect plain_loader (Str ''__proto__'')
      (snd (registerModule plain_loader (Str ''ui/Clock'') (Obj 2) Undefined
        (snd (registerModule plain_loader (Str ''ui/Clock'') (Obj 1) (Str ''__proto__'') init)))))
     = Inr Undefined
   \<and> fst (getModule_of_redirect (base_loader ''js/'') (Str ''clock'')
      (snd (registerModule (base_loader ''js/'') (Str ''constructor'') (Obj 2) Undefined
        (snd (registerModule (base_loader ''js/'') (Str ''constructor'') (Obj 1) (Str ''clock'') init)))))
     = Inr (Fun ''Object'')"
  by (simp add: eval_defs)

text \<open>
  C1, amended: in a registry whose two dictionaries have their original prototype, for
  every truthy (non-empty) alias \<open>a\<close> other than \<^verbatim>\<open>__proto__\<close> and every truthy
  (non-empty) path \<open>p\<close> whose resolved form is not \<^verbatim>\<open>__proto__\<close>, and every
  options value, provided \<open>p\<close> is its own resolved form or a read of \<open>p\<close> as given
  finds nothing truthy (neither stored nor inherited): after
  \<^verbatim>\<open>registerModule(p, o1, a)\<close> and then \<^verbatim>\<open>registerModule(p, o, a2)\<close> (any \<open>a2\<close>),
  \<^verbatim>\<open>getModule(getRedirect(a))\<close> returns \<open>o\<close>.
\<close>

theorem roundtrip:
  assumes "truthy a" and "truthy p"
    and "ToPropertyKey a \<noteq> ''__proto__''" and "ToPropertyKey (toUrl p) \<noteq> ''__proto__''"
    and "ToPropertyKey (toUrl p) = ToPropertyKey p \<or> \<not> truthy (js_get (m_options reg) p)"
    and "plain (m_options reg)" and "plain (m_redirects reg)"
  shows "fst (getModule_of_redirect toUrl a
            (snd (registerModule toUrl p opts a2 (snd (registerModule toUrl p opts1 a reg))))) = Inr opts"
proof -
  let ?r1 = "snd (registerModule toUrl p opts1 a reg)"
  let ?r2 = "snd (registerModule toUrl p opts a2 ?r1)"
  have "m_redirects ?r1 (ToPropertyKey a) = Some p"
    using assms(1,3) by (simp add: registerModule_redirects js_set_plain_key)
  then have "m_redirects ?r2 (ToPropertyKey a) = Some p"
    using assms(3)
    by (cases "ToPropertyKey a = ToPropertyKey a2")
      (simp_all add: registerModule_redirects js_set_plain_key js_set_elsewhere)
  then have redirect: "getRedirect a ?r2 = (Inr p, ?r2)"
    using assms(2) by (simp add: getRedirect_def js_or_def js_get_stored)
  have options: "m_options ?r2 = js_set (js_set (m_options reg) (toUrl p) opts1) (toUrl p) opts"
    by (simp add: registerModule_options)
  have resolved: "js_get (m_options ?r2) (toUrl p) = opts"
    using assms(4) by (simp add: options js_get_set)
  have given: "js_get (m_options ?r2) p = opts \<or> \<not> truthy (js_get (m_options ?r2) p)"
    using assms(4,5) by (auto simp add: options js_get_set)
  from redirect resolved given assms(2) show ?thesis
    by (auto simp add: getModule_of_redirect_def getModule_def js_or_def)
qed

theorem roundtrip_witness:
  "truthy (Str ''clock'') \<and> truthy (Str ''ui/Clock'')
   \<and> ToPropertyKey (Str ''clock'') \<noteq> ''__proto__''
   \<and> ToPropertyKey (base_loader ''js/'' (Str ''ui/Clock'')) \<noteq> ''__proto__''
   \<and> plain (m_options init) \<and> plain (m_redirects init)
   \<and> \<not> truthy (js_get (m_options init) (Str ''ui/Clock''))
   \<and> fst (getModule_of_redirect (base_loader ''js/'') (Str ''clock'')
        (snd (registerModule (base_loader ''js/'') (Str ''ui/Clock'') (Obj 2) Undefined
          (snd (registerModule (base_loader ''js/'') (Str ''ui/Clock'') (Obj 1) (Str ''clock'') init)))))
      = Inr (Obj 2)"
  using roundtrip [where a = "Str ''clock''" and p = "Str ''ui/Clock''" and toUrl = "base_loader ''js/''"
      and reg = init and opts = "Obj 2" and ?a2.0 = Undefined and ?opts1.0 = "Obj 1"]
  by (simp add: eval_defs)

subsection \<open>Lookup (C2)\<close>

text \<open>
  C2 as stated says that \<^verbatim>\<open>getModule\<close> returns the options stored under the path as
  given whenever there are some, and \<^verbatim>\<open>undefined\<close> when there are none under either
  key. The code tests the stored value with \<^verbatim>\<open>||\<close>: here the number 0 is stored
  under \<^verbatim>\<open>js/Clock\<close>, and \<^verbatim>\<open>getModule('js/Clock')\<close> falls through to the
  resolved path \<^verbatim>\<open>js/js/Clock\<close> and returns \<^verbatim>\<open>undefined\<close>. And in the empty
  registry, where nothing is stored, \<^verbatim>\<open>getModule('toString')\<close> returns the
  function that \<^verbatim>\<open>{}\<close> inherits under that name.
\<close>

theorem getModule_counterexample:
  "m_options (snd (registerModule (base_loader ''js/'') (Str ''Clock'') (Num 0) Undefined init)) ''js/Clock''
     = Some (Num 0)
   \<and> fst (getModule (base_loader ''js/'') (Str ''js/Clock'')
        (snd (registerModule (base_loader ''js/'') (Str ''Clock'') (Num 0) Undefined init)))
     = Inr Undefined
   \<and> m_options init = Map.empty
   \<and> fst (getModule plain_loader (Str ''toString'') init) = Inr (Fun ''toString'')"
  by (simp add: eval_defs)

text \<open>
  C2, amended: \<^verbatim>\<open>getModule(path)\<close> throws if and only if \<open>path\<close> is falsy (for a
  string: empty; absent: \<^verbatim>\<open>undefined\<close>). For every truthy path it does not throw and
  returns what the read of the path as given finds when that is truthy, otherwise what
  the read of the resolved path finds; a truthy value stored under a path other than
  \<^verbatim>\<open>__proto__\<close> is what the first read finds. When neither key is present, neither
  is a name inherited from \<^verbatim>\<open>Object.prototype\<close> and the options dictionary has its
  original prototype, it returns \<^verbatim>\<open>undefined\<close>. Throwing or not, the call leaves the
  registry as it was.
\<close>

theorem getModule_result:
  "((\<exists>e. fst (getModule toUrl path reg) = Inl e) \<longleftrightarrow> \<not> truthy path)
   \<and> ((\<exists>e. fst (getModule toUrl (Str s) reg) = Inl e) \<longleftrightarrow> s = [])
   \<and> (\<exists>e. fst (getModule toUrl Undefined reg) = Inl e)
   \<and> (truthy path \<longrightarrow>
        fst (getModule toUrl path reg) =
          Inr (if truthy (js_get (m_options reg) path) then js_get (m_options reg) path
               else js_get (m_options reg) (toUrl path)))
   \<and> (truthy path \<longrightarrow> ToPropertyKey path \<noteq> ''__proto__''
        \<longrightarrow> m_options reg (ToPropertyKey path) = Some v \<longrightarrow> truthy v
        \<longrightarrow> fst (getModule toUrl path reg) = Inr v)
   \<and> (truthy path \<longrightarrow> plain (m_options reg)
        \<longrightarrow> \<not> inherited (ToPropertyKey path) \<longrightarrow> \<not> inherited (ToPropertyKey (toUrl path))
        \<longrightarrow> m_options reg (ToPropertyKey path) = None
        \<longrightarrow> m_options reg (ToPropertyKey (toUrl path)) = None
        \<longrightarrow> fst (getModule toUrl path reg) = Inr Undefined)
   \<and> snd (getModule toUrl path reg) = reg"
  by (simp add: getModule_def js_or_def js_get_stored js_get_absent)

theorem getModule_result_witness:
  "truthy (Str ''ui/Clock'') \<and> plain (m_options init)
   \<and> \<not> inherited (ToPropertyKey (Str ''ui/Clock''))
   \<and> \<not> inherited (ToPropertyKey (base_loader ''js/'' (Str ''ui/Clock'')))
   \<and> m_options init (ToPropertyKey (Str ''ui/Clock'')) = None
   \<and> m_options init (ToPropertyKey (base_loader ''js/'' (Str ''ui/Clock''))) = None
   \<and> fst (getModule (base_loader ''js/'') (Str ''ui/Clock'') init) = Inr Undefined
   \<and> truthy (Str ''js/ui/Clock'') \<and> truthy (Obj 1)
   \<and> m_options (snd (registerModule (base_loader ''js/'') (Str ''ui/Clock'') (Obj 1) Undefined init))
        (ToPropertyKey (Str ''js/ui/Clock'')) = Some (Obj 1)
   \<and> fst (getModule (base_loader ''js/'') (Str ''js/ui/Clock'')
         (snd (registerModule (base_loader ''js/'') (Str ''ui/Clock'') (Obj 1) Undefined init)))
       = Inr (Obj 1)"
  using getModule_result [where toUrl = "base_loader ''js/''" and path = "Str ''ui/Clock''"
      and reg = init and s = "''ui/Clock''" and v = "Obj 1"]
    getModule_result [where toUrl = "base_loader ''js/''" and path = "Str ''js/ui/Clock''"
      and reg = "snd (registerModule (base_loader ''js/'') (Str ''ui/Clock'') (Obj 1) Undefined init)"
      and s = "''ui/Clock''" and v = "Obj 1"]
  by (simp add: eval_defs)

subsection \<open>Redirects (C3)\<close>

text \<open>
  C3 as stated says that a name with a registered redirect resolves to the redirect's
  target, and a name without one to itself. Registering the empty path under the alias
  \<^verbatim>\<open>clock\<close> records the redirect \<^verbatim>\<open>clock\<close> to \<^verbatim>\<open>''\<close>, and
  \<^verbatim>\<open>getRedirect('clock')\<close> returns \<^verbatim>\<open>'clock'\<close>: a falsy target is skipped by
  \<^verbatim>\<open>||\<close>. And in the empty registry, where no redirect is registered,
  \<^verbatim>\<open>getRedirect('constructor')\<close> returns the function \<^verbatim>\<open>Object\<close> that
  \<^verbatim>\<open>{}\<close> inherits under that name.
\<close>

theorem getRedirect_counterexample:
  "m_redirects (snd (registerModule plain_loader (Str '''') (Obj 1) (Str ''clock'') init)) ''clock''
     = Some (Str '''')
   \<and> fst (getRedirect (Str ''clock'')
        (snd (registerModule plain_loader (Str '''') (Obj 1) (Str ''clock'') init)))
     = Inr (Str ''clock'')
   \<and> m_redirects init = Map.empty
   \<and> fst (getRedirect (Str ''constructor'') init) = Inr (Fun ''Object'')"
  by (simp add: eval_defs)

text \<open>
  C3, amended: \<^verbatim>\<open>getRedirect\<close> never fails; for every name other than
  \<^verbatim>\<open>__proto__\<close> whose recorded target is truthy it returns that target; for every
  name that has no recorded redirect and is not a name inherited from
  \<^verbatim>\<open>Object.prototype\<close>, in a registry whose redirect dictionary has its original
  prototype, and for every name whose read finds a falsy value (a recorded falsy target,
  such as the empty path), it returns the name unchanged.
\<close>

theorem getRedirect_result:
  "(\<exists>v. fst (getRedirect name reg) = Inr v)
   \<and> (ToPropertyKey name \<noteq> ''__proto__'' \<longrightarrow> m_redirects reg (ToPropertyKey name) = Some t
        \<longrightarrow> truthy t \<longrightarrow> fst (getRedirect name reg) = Inr t)
   \<and> (plain (m_redirects reg) \<longrightarrow> \<not> inherited (ToPropertyKey name)
        \<longrightarrow> m_redirects reg (ToPropertyKey name) = None
        \<longrightarrow> fst (getRedirect name reg) = Inr name)
   \<and> (\<not> truthy (js_get (m_redirects reg) name) \<longrightarrow> fst (getRedirect name reg) = Inr name)"
  by (simp add: getRedirect_def js_or_def js_get_stored js_get_absent)

theorem getRedirect_result_witness:
  "ToPropertyKey (Str ''clock'') \<noteq> ''__proto__'' \<and> truthy (Str ''ui/Clock'')
   \<and> m_redirects (snd (registerModule plain_loader (Str ''ui/Clock'') (Obj 1) (Str ''clock'') init))
        (ToPropertyKey (Str ''clock'')) = Some (Str ''ui/Clock'')
   \<and> fst (getRedirect (Str ''clock'')
         (snd (registerModule plain_loader (Str ''ui/Clock'') (Obj 1) (Str ''clock'') init)))
       = Inr (Str ''ui/Clock'')
   \<and> plain (m_redirects (snd (registerModule plain_loader (Str ''ui/Clock'') (Obj 1) (Str ''clock'') init)))
   \<and> \<not> inherited (ToPropertyKey (Str ''timer''))
   \<and> m_redirects (snd (registerModule plain_loader (Str ''ui/Clock'') (Obj 1) (Str ''clock'') init))
         (ToPropertyKey (Str ''timer'')) = None
   \<and> fst (getRedirect (Str ''timer'')
         (snd (registerModule plain_loader (Str ''ui/Clock'') (Obj 1) (Str ''clock'') init)))
       = Inr (Str ''timer'')"
  using getRedirect_result [where name = "Str ''clock''" and t = "Str ''ui/Clock''"
      and reg = "snd (registerModule plain_loader (Str ''ui/Clock'') (Obj 1) (Str ''clock'') init)"]
    getRedirect_result [where name = "Str ''timer''" and t = "Str ''ui/Clock''"
      and reg = "snd (registerModule plain_loader (Str ''ui/Clock'') (Obj 1) (Str ''clock'') init)"]
  by (simp add: eval_defs)

subsection \<open>Registration (C4)\<close>

text \<open>
  C4 as stated, for every call, says that the options are stored under the resolved path
  and that a given alias is recorded. An assignment to the name \<^verbatim>\<open>__proto__\<close> runs
  the setter that \<^verbatim>\<open>{}\<close> inherits, and creates no entry: registering under the alias
  \<^verbatim>\<open>__proto__\<close> leaves the redirects as they were, and \<^verbatim>\<open>getRedirect\<close> of it
  returns \<^verbatim>\<open>Object.prototype\<close>, not the path.
\<close>

theorem registerModule_counterexample:
  "truthy (Str ''__proto__'')
   \<and> m_redirects (snd (registerModule plain_loader (Str ''ui/Clock'') (Obj 1) (Str ''__proto__'') init))
       = m_redirects init
   \<and> fst (getRedirect (Str ''__proto__'')
        (snd (registerModule plain_loader (Str ''ui/Clock'') (Obj 1) (Str ''__proto__'') init)))
       = Inr ObjectPrototype"
  by (simp add: eval_defs)

text \<open>
  C4, amended: \<^verbatim>\<open>registerModule(path, options, alias)\<close> raises no error and passes
  the pair (path, options) on to the loader's \<^verbatim>\<open>config\<close>. When the resolved path is
  not \<^verbatim>\<open>__proto__\<close> and the options dictionary has its original prototype, it
  stores the options under the key of \<^verbatim>\<open>toUrl(path)\<close> and changes no other entry,
  and a second registration of the same path leaves the second options under the key.
  An alias that is given (one that passes \<^verbatim>\<open>if (alias)\<close>) and is not
  \<^verbatim>\<open>__proto__\<close> is recorded, in a redirect dictionary that has its original
  prototype, as the redirect from the alias to the path; without an alias the redirects
  stay as they were.
\<close>

theorem registerModule_effect:
  "fst (registerModule toUrl path opts alias reg) = Inr Undefined
   \<and> loader_config (snd (registerModule toUrl path opts alias reg))
       = loader_config reg @ [(path, opts)]
   \<and> (ToPropertyKey (toUrl path) \<noteq> ''__proto__'' \<longrightarrow> plain (m_options reg) \<longrightarrow>
        m_options (snd (registerModule toUrl path opts alias reg))
          = (m_options reg)(ToPropertyKey (toUrl path) \<mapsto> opts)
        \<and> js_get (m_options (snd (registerModule toUrl path opts alias reg))) (toUrl path) = opts
        \<and> js_get (m_options (snd (registerModule toUrl path opts2 alias2
              (snd (registerModule toUrl path opts alias reg))))) (toUrl path) = opts2)
   \<and> (truthy alias \<longrightarrow> ToPropertyKey alias \<noteq> ''__proto__'' \<longrightarrow> plain (m_redirects reg) \<longrightarrow>
        m_redirects (snd (registerModule toUrl path opts alias reg))
          = (m_redirects reg)(ToPropertyKey alias \<mapsto> path))
   \<and> (\<not> truthy alias \<longrightarrow>
        m_redirects (snd (registerModule toUrl path opts alias reg)) = m_redirects reg)
   \<and> fst (registerModule toUrl path opts2 alias2 (snd (registerModule toUrl path opts alias reg)))
       = Inr Undefined"
  by (simp add: registerModule_def Let_def js_set_plain_key js_get_stored)

theorem registerModule_effect_witness:
  "truthy (Str ''clock'') \<and> \<not> truthy Undefined
   \<and> ToPropertyKey (Str ''clock'') \<noteq> ''__proto__''
   \<and> ToPropertyKey (base_loader ''js/'' (Str ''ui/Clock'')) \<noteq> ''__proto__''
   \<and> plain (m_options init) \<and> plain (m_redirects init)
   \<and> m_redirects (snd (registerModule (base_loader ''js/'') (Str ''ui/Clock'') (Obj 1) (Str ''clock'') init))
       = (m_redirects init)(''clock'' \<mapsto> Str ''ui/Clock'')
   \<and> m_redirects (snd (registerModule (base_loader ''js/'') (Str ''ui/Clock'') (Obj 1) Undefined init))
       = m_redirects init
   \<and> m_options (snd (registerModule (base_loader ''js/'') (Str ''ui/Clock'') (Obj 1) (Str ''clock'') init))
       = (m_options init)(''js/ui/Clock'' \<mapsto> Obj 1)
   \<and> js_get (m_options (snd (registerModule (base_loader ''js/'') (Str ''ui/Clock'') (Obj 2) Undefined
          (snd (registerModule (base_loader ''js/'') (Str ''ui/Clock'') (Obj 1) (Str ''clock'') init)))))
        (Str ''js/ui/Clock'') = Obj 2"
  using registerModule_effect [of "base_loader ''js/''" "Str ''ui/Clock''" "Obj 1" "Str ''clock''" init
      "Obj 2" Undefined]
    registerModule_effect [of "base_loader ''js/''" "Str ''ui/Clock''" "Obj 1" Undefined init
      "Obj 2" Undefined]
  by (simp add: base_loader_def plain_def init_def)

subsection \<open>Last registration of an alias (C5)\<close>

text \<open>
  C5 as stated, for every alias and paths, fails on the code in three ways. When the
  second path is the empty string the redirect is overwritten with a falsy target, and
  \<^verbatim>\<open>getRedirect\<close> returns the alias instead of the path. When the alias is the empty
  string neither call records a redirect, and \<^verbatim>\<open>getRedirect\<close> returns the empty
  string instead of the second path. And the alias \<^verbatim>\<open>__proto__\<close> is recorded by
  neither call: \<^verbatim>\<open>getRedirect\<close> returns \<^verbatim>\<open>Object.prototype\<close>.
\<close>

theorem last_alias_counterexample:
  "fst (getRedirect (Str ''clock'')
      (snd (registerModule plain_loader (Str '''') (Obj 2) (Str ''clock'')
        (snd (registerModule plain_loader (Str ''ui/Clock'') (Obj 1) (Str ''clock'') init)))))
     = Inr (Str ''clock'')
   \<and> fst (getRedirect (Str '''')
      (snd (registerModule plain_loader (Str ''ui/Timer'') (Obj 2) (Str '''')
        (snd (registerModule plain_loader (Str ''ui/Clock'') (Obj 1) (Str '''') init)))))
     = Inr (Str '''')
   \<and> fst (getRedirect (Str ''__proto__'')
      (snd (registerModule plain_loader (Str ''ui/Timer'') (Obj 2) (Str ''__proto__'')
        (snd (registerModule plain_loader (Str ''ui/Clock'') (Obj 1) (Str ''__proto__'') init)))))
     = Inr ObjectPrototype"
  by (simp add: eval_defs)

text \<open>
  C5, amended: in a registry whose redirect dictionary has its original prototype, for
  every truthy (non-empty) alias \<open>a\<close> other than \<^verbatim>\<open>__proto__\<close> and every truthy
  (non-empty) path \<open>p2\<close>, after \<^verbatim>\<open>registerModule(p1, o1, a)\<close> followed by
  \<^verbatim>\<open>registerModule(p2, o2, a)\<close>, \<^verbatim>\<open>getRedirect(a)\<close> returns \<open>p2\<close>. The redirects are
  many-to-one: a second such alias \<open>b\<close> registered for the same path resolves to it
  as well, and \<open>a\<close> still does; each alias has one target, the map being a function of
  the alias.
\<close>

theorem last_alias_wins:
  assumes "truthy a" and "truthy p2" and "ToPropertyKey a \<noteq> ''__proto__''"
    and "plain (m_redirects reg)" and "plain (m_redirects reg2)"
  shows "fst (getRedirect a
            (snd (registerModule toUrl p2 o2 a (snd (registerModule toUrl p1 o1 a reg))))) = Inr p2
    \<and> (truthy b \<longrightarrow> ToPropertyKey b \<noteq> ''__proto__'' \<longrightarrow>
         fst (getRedirect b (snd (registerModule toUrl p2 o3 b
            (snd (registerModule toUrl p2 o2 a reg2))))) = Inr p2
         \<and> fst (getRedirect a (snd (registerModule toUrl p2 o3 b
            (snd (registerModule toUrl p2 o2 a reg2))))) = Inr p2)"
  using assms
  by (auto simp add: getRedirect_def js_or_def js_get_set registerModule_redirects)

theorem last_alias_wins_witness:
  "truthy (Str ''clock'') \<and> truthy (Str ''ui/Timer'') \<and> truthy (Str ''timer'')
   \<and> ToPropertyKey (Str ''clock'') \<noteq> ''__proto__'' \<and> ToPropertyKey (Str ''timer'') \<noteq> ''__proto__''
   \<and> plain (m_redirects init)
   \<and> fst (getRedirect (Str ''clock'')
        (snd (registerModule plain_loader (Str ''ui/Timer'') (Obj 2) (Str ''clock'')
          (snd (registerModule plain_loader (Str ''ui/Clock'') (Obj 1) (Str ''clock'') init)))))
      = Inr (Str ''ui/Timer'')
   \<and> fst (getRedirect (Str ''timer'')
        (snd (registerModule plain_loader (Str ''ui/Timer'') (Obj 3) (Str ''timer'')
          (snd (registerModule plain_loader (Str ''ui/Timer'') (Obj 2) (Str ''clock'') init)))))
      = Inr (Str ''ui/Timer'')
   \<and> fst (getRedirect (Str ''clock'')
        (snd (registerModule plain_loader (Str ''ui/Timer'') (Obj 3) (Str ''timer'')
          (snd (registerModule plain_loader (Str ''ui/Timer'') (Obj 2) (Str ''clock'') init)))))
      = Inr (Str ''ui/Timer'')"
  using last_alias_wins [where a = "Str ''clock''" and ?p2.0 = "Str ''ui/Timer''" and toUrl = plain_loader
      and ?o2.0 = "Obj 2" and ?p1.0 = "Str ''ui/Clock''" and ?o1.0 = "Obj 1" and reg = init
      and b = "Str ''timer''" and ?o3.0 = "Obj 3" and ?reg2.0 = init]
  by (simp add: eval_defs)

subsection \<open>Reads leave the registry alone (C6)\<close>

text \<open>
  C6: \<^verbatim>\<open>getRedirect\<close> and \<^verbatim>\<open>getModule\<close> return the state they were given, for
  every state and argument, also when \<^verbatim>\<open>getModule\<close> throws; and a call after which
  the options or the redirects differ is a call of \<^verbatim>\<open>registerModule\<close>.
\<close>

theorem reads_keep_state:
  "snd (getRedirect path reg) = reg
   \<and> snd (getModule toUrl path reg) = reg
   \<and> (m_options (snd (invoke toUrl c reg)) \<noteq> m_options reg
        \<or> m_redirects (snd (invoke toUrl c reg)) \<noteq> m_redirects reg
      \<longrightarrow> (\<exists>p opts a. c = RegisterModule p opts a))"
  by (cases c) (simp_all add: getRedirect_def getModule_def)

theorem reads_keep_state_witness:
  "m_options (snd (invoke plain_loader (RegisterModule (Str ''ui/Clock'') (Obj 1) (Str ''clock'')) init))
     \<noteq> m_options init
   \<and> (\<exists>p opts a. RegisterModule (Str ''ui/Clock'') (Obj 1) (Str ''clock'') = RegisterModule p opts a)
   \<and> snd (getRedirect (Str ''clock'') init) = init
   \<and> snd (getModule plain_loader (Str '''') init) = init"
  using reads_keep_state [of "Str ''clock''" init plain_loader "RegisterModule (Str ''ui/Clock'') (Obj 1) (Str ''clock'')"]
    reads_keep_state [of "Str ''clock''" init plain_loader "GetModule (Str '''')"]
  by (simp add: eval_defs)

subsection \<open>A falsy alias (C8)\<close>

text \<open>
  C8: \<^verbatim>\<open>registerModule\<close> with a falsy alias (\<^verbatim>\<open>undefined\<close> and the empty string
  are falsy) leaves the redirects as they were, and \<^verbatim>\<open>getRedirect\<close> of that alias
  returns afterwards what it returned before. In particular, in a registry that started
  empty and was used through its methods only, \<^verbatim>\<open>getRedirect('')\<close> after such a call
  is \<^verbatim>\<open>''\<close>.
\<close>

theorem falsy_alias_no_redirect:
  "(\<not> truthy al \<longrightarrow>
      m_redirects (snd (registerModule toUrl path opts al reg)) = m_redirects reg
      \<and> fst (getRedirect al (snd (registerModule toUrl path opts al reg))) = fst (getRedirect al reg))
   \<and> \<not> truthy Undefined \<and> \<not> truthy (Str '''')
   \<and> fst (getRedirect (Str '''') (snd (registerModule toUrl path opts (Str '''') (run toUrl cs init))))
       = Inr (Str '''')"
proof -
  have "m_redirects (run toUrl cs init) [] = None"
    by (rule run_keeps_empty_alias) (simp add: init_def)
  then show ?thesis
    by (simp add: getRedirect_def registerModule_redirects js_or_def js_get_empty_name)
qed

theorem falsy_alias_no_redirect_witness:
  "\<not> truthy (Str '''')
   \<and> m_redirects (snd (registerModule plain_loader (Str ''ui/Timer'') (Obj 2) (Str '''')
         (run plain_loader [RegisterModule (Str ''ui/Clock'') (Obj 1) (Str ''clock'')] init)))
       = m_redirects (run plain_loader [RegisterModule (Str ''ui/Clock'') (Obj 1) (Str ''clock'')] init)
   \<and> fst (getRedirect (Str '''') (snd (registerModule plain_loader (Str ''ui/Timer'') (Obj 2) (Str '''')
         (run plain_loader [RegisterModule (Str ''ui/Clock'') (Obj 1) (Str ''clock'')] init))))
       = Inr (Str '''')"
  using falsy_alias_no_redirect [of "Str ''''" plain_loader "Str ''ui/Timer''" "Obj 2"
      "run plain_loader [RegisterModule (Str ''ui/Clock'') (Obj 1) (Str ''clock'')] init"
      "[RegisterModule (Str ''ui/Clock'') (Obj 1) (Str ''clock'')]"]
  by (simp add: eval_defs)

subsection \<open>Lookup does not follow redirects (C9)\<close>

text \<open>
  C9 as stated says that \<^verbatim>\<open>getModule(a)\<close> is \<^verbatim>\<open>undefined\<close> for a registered alias
  unless the alias or its resolved form is a key of the options. Here the alias
  \<^verbatim>\<open>toString\<close> is registered for \<^verbatim>\<open>ui/Clock\<close>; neither \<^verbatim>\<open>toString\<close> nor
  \<^verbatim>\<open>js/toString\<close> is a key of the options, and \<^verbatim>\<open>getModule('toString')\<close> returns
  the function that \<^verbatim>\<open>{}\<close> inherits under that name.
\<close>

theorem getModule_ignores_redirects_counterexample:
  "m_redirects (snd (registerModule (base_loader ''js/'') (Str ''ui/Clock'') (Obj 1) (Str ''toString'') init))
      ''toString'' = Some (Str ''ui/Clock'')
   \<and> m_options (snd (registerModule (base_loader ''js/'') (Str ''ui/Clock'') (Obj 1) (Str ''toString'') init))
      ''toString'' = None
   \<and> m_options (snd (registerModule (base_loader ''js/'') (Str ''ui/Clock'') (Obj 1) (Str ''toString'') init))
      ''js/toString'' = None
   \<and> fst (getModule (base_loader ''js/'') (Str ''toString'')
        (snd (registerModule (base_loader ''js/'') (Str ''ui/Clock'') (Obj 1) (Str ''toString'') init)))
     = Inr (Fun ''toString'')"
  by (simp add: eval_defs)

text \<open>
  C9, amended: the result of \<^verbatim>\<open>getModule\<close> does not depend on the redirects:
  replacing them by any others changes nothing. So for a truthy alias \<open>a\<close>, whatever
  redirect is recorded for it, \<^verbatim>\<open>getModule(a)\<close> is \<^verbatim>\<open>undefined\<close> unless \<open>a\<close> itself
  or its resolved form is a key of the options, provided neither is a name inherited
  from \<^verbatim>\<open>Object.prototype\<close> and the options dictionary has its original prototype.
  The witness registers the options of \<^verbatim>\<open>ui/Clock\<close> under the alias \<^verbatim>\<open>clock\<close>:
  the lookup of the redirect's target finds them, the lookup of the alias does not.
\<close>

theorem getModule_ignores_redirects:
  "fst (getModule toUrl a (reg\<lparr> m_redirects := r \<rparr>)) = fst (getModule toUrl a reg)
   \<and> (truthy a \<longrightarrow> plain (m_options reg)
        \<longrightarrow> \<not> inherited (ToPropertyKey a) \<longrightarrow> \<not> inherited (ToPropertyKey (toUrl a))
        \<longrightarrow> m_options reg (ToPropertyKey a) = None
        \<longrightarrow> m_options reg (ToPropertyKey (toUrl a)) = None
        \<longrightarrow> fst (getModule toUrl a reg) = Inr Undefined)"
  by (simp add: getModule_def js_or_def js_get_absent)

theorem getModule_ignores_redirects_witness:
  "truthy (Str ''clock'')
   \<and> plain (m_options (snd (registerModule (base_loader ''js/'') (Str ''ui/Clock'') (Obj 1) (Str ''clock'') init)))
   \<and> \<not> inherited (ToPropertyKey (Str ''clock''))
   \<and> \<not> inherited (ToPropertyKey (base_loader ''js/'' (Str ''clock'')))
   \<and> m_options (snd (registerModule (base_loader ''js/'') (Str ''ui/Clock'') (Obj 1) (Str ''clock'') init))
        (ToPropertyKey (Str ''clock'')) = None
   \<and> m_options (snd (registerModule (base_loader ''js/'') (Str ''ui/Clock'') (Obj 1) (Str ''clock'') init))
        (ToPropertyKey (base_loader ''js/'' (Str ''clock''))) = None
   \<and> fst (getRedirect (Str ''clock'')
        (snd (registerModule (base_loader ''js/'') (Str ''ui/Clock'') (Obj 1) (Str ''clock'') init)))
      = Inr (Str ''ui/Clock'')
   \<and> fst (getModule (base_loader ''js/'') (Str ''ui/Clock'')
        (snd (registerModule (base_loader ''js/'') (Str ''ui/Clock'') (Obj 1) (Str ''clock'') init)))
      = Inr (Obj 1)
   \<and> fst (getModule (base_loader ''js/'') (Str ''clock'')
        (snd (registerModule (base_loader ''js/'') (Str ''ui/Clock'') (Obj 1) (Str ''clock'') init)))
      = Inr Undefined"
  using getModule_ignores_redirects [where toUrl = "base_loader ''js/''" and a = "Str ''clock''"
      and reg = "snd (registerModule (base_loader ''js/'') (Str ''ui/Clock'') (Obj 1) (Str ''clock'') init)"]
  by (simp add: eval_defs)

subsection \<open>Truthiness, not key presence (C10)\<close>

text \<open>
  C10: the falsy values are \<^verbatim>\<open>undefined\<close>, \<^verbatim>\<open>null\<close>, \<^verbatim>\<open>false\<close>, \<^verbatim>\<open>0\<close> and the
  empty string. When the key of the path as given is present in the options with a falsy
  value, \<^verbatim>\<open>getModule\<close> (called with a truthy path, so that it reaches the lookup)
  returns the entry under the resolved path. When an alias's recorded target is falsy,
  \<^verbatim>\<open>getRedirect\<close> returns the alias unchanged.
\<close>

theorem lookups_test_truthiness:
  "(\<not> truthy v) = (v \<in> {Undefined, Null, Bool False, Num 0, Str ''''})
   \<and> (truthy path \<longrightarrow> m_options reg (ToPropertyKey path) = Some v \<longrightarrow> \<not> truthy v
        \<longrightarrow> fst (getModule toUrl path reg) = Inr (js_get (m_options reg) (toUrl path)))
   \<and> (m_redirects reg (ToPropertyKey al) = Some t \<longrightarrow> \<not> truthy t
        \<longrightarrow> fst (getRedirect al reg) = Inr al)"
  by (cases v) (auto simp add: getModule_def getRedirect_def js_or_def js_get_stored)

theorem lookups_test_truthiness_witness:
  "truthy (Str ''js/Clock'') \<and> \<not> truthy (Num 0) \<and> \<not> truthy (Str '''')
   \<and> m_options (run (base_loader ''js/'')
          [RegisterModule (Str ''Clock'') (Num 0) (Str ''clock''),
           RegisterModule (Str ''js/Clock'') (Obj 1) (Str ''clock'')] init)
        (ToPropertyKey (Str ''js/Clock'')) = Some (Num 0)
   \<and> fst (getModule (base_loader ''js/'') (Str ''js/Clock'')
        (run (base_loader ''js/'')
          [RegisterModule (Str ''Clock'') (Num 0) (Str ''clock''),
           RegisterModule (Str ''js/Clock'') (Obj 1) (Str ''clock'')] init))
      = Inr (Obj 1)
   \<and> m_redirects (run plain_loader [RegisterModule (Str '''') (Obj 1) (Str ''clock'')] init)
        (ToPropertyKey (Str ''clock'')) = Some (Str '''')
   \<and> fst (getRedirect (Str ''clock'')
        (run plain_loader [RegisterModule (Str '''') (Obj 1) (Str ''clock'')] init))
      = Inr (Str ''clock'')"
  using lookups_test_truthiness [of "Num 0" "Str ''js/Clock''"
      "run (base_loader ''js/'')
          [RegisterModule (Str ''Clock'') (Num 0) (Str ''clock''),
           RegisterModule (Str ''js/Clock'') (Obj 1) (Str ''clock'')] init"
      "base_loader ''js/''" "Str ''clock''" "Str ''''"]
    lookups_test_truthiness [of "Num 0" "Str ''js/Clock''"
      "run plain_loader [RegisterModule (Str '''') (Obj 1) (Str ''clock'')] init"
      "base_loader ''js/''" "Str ''clock''" "Str ''''"]
  by (simp add: eval_defs)

section \<open>Properties of the bound module\<close>

subsection \<open>The lifecycle keeps its invariants\<close>













subsection \<open>Mounted state and matching context (C7)\<close>




end
